theory Spec2Isabelle
  imports Complex_Main
begin

chapter \<open>A Lavalink client: the guild player and the player instance\<close>

text \<open>
  \<^verbatim>\<open>Player\<close> holds the playback state of one guild and forwards commands to a Lavalink
  server; \<^verbatim>\<open>PlayerInstance\<close> owns the players, creates one when a voice channel is
  joined, deletes it when the channel is left, and relays voice server updates. Both are
  embedded here as functions on explicit state, and their properties proved.
\<close>

section \<open>JavaScript values used by the player\<close>

text \<open>
  Every parameter but the volume is modelled at the type its JSDoc gives, wrapped in
  \<open>option\<close>: \<open>None\<close> is \<^verbatim>\<open>undefined\<close>, the value of an argument that is left out.
  The volume is tested and coerced by the code itself, so it is any primitive value
  (\<open>jsvalue\<close> below).

  A JavaScript number is \<^verbatim>\<open>NaN\<close>, an infinity or a finite value. Finite values are
  rationals: every finite double is one, and the only arithmetic the player does on a
  volume (\<^verbatim>\<open>%\<close>, \<^verbatim>\<open><\<close>, \<^verbatim>\<open>>\<close>, \<^verbatim>\<open>!==\<close>) is exact on doubles. The two zeros
  are one value \<open>Fin 0\<close>: nothing below tells them apart.
\<close>

datatype number = NaN | PosInfinity | NegInfinity | Fin rat

text \<open>\<^verbatim>\<open>ToBoolean\<close> of a number: \<^verbatim>\<open>0\<close> and \<^verbatim>\<open>NaN\<close> are falsy.\<close>

fun truthy :: "number \<Rightarrow> bool" where
  "truthy NaN = False"
| "truthy (Fin x) = (x \<noteq> 0)"
| "truthy PosInfinity = True"
| "truthy NegInfinity = True"

text \<open>Rounding towards zero, as \<^verbatim>\<open>%\<close> and the digits before the decimal point do.\<close>

definition trunc :: "rat \<Rightarrow> int" where
  "trunc x = (if 0 \<le> x then \<lfloor>x\<rfloor> else \<lceil>x\<rceil>)"

text \<open>
  \<^verbatim>\<open>parseInt(v)\<close> on a number prints it and reads the leading integer of the string.
  \<^verbatim>\<open>NaN\<close>, \<^verbatim>\<open>Infinity\<close> and \<^verbatim>\<open>-Infinity\<close> print as words, which read as \<^verbatim>\<open>NaN\<close>.
  A finite \<open>x\<close> with \<open>10\<^sup>-\<^sup>6 \<le> \<bar>x\<bar> < 10\<^sup>2\<^sup>1\<close> (or zero) prints in decimal notation and
  reads as \<open>x\<close> rounded towards zero. Any other finite number prints in exponent notation
  (\<^verbatim>\<open>1.5e+21\<close>, \<^verbatim>\<open>3e-7\<close>) and reads as the signed digit in front; which digit that is
  depends on the engine's shortest-digits printing of the double, so it is the parameter
  \<open>sci\<close>, about which nothing is assumed.
\<close>

definition decimal_notation :: "rat \<Rightarrow> bool" where
  "decimal_notation x \<longleftrightarrow> x = 0 \<or> (1 / 10 ^ 6 \<le> \<bar>x\<bar> \<and> \<bar>x\<bar> < 10 ^ 21)"

fun parseInt_number :: "(rat \<Rightarrow> int) \<Rightarrow> number \<Rightarrow> number" where
  "parseInt_number sci (Fin x) =
     (if decimal_notation x then Fin (of_int (trunc x)) else Fin (of_int (sci x)))"
| "parseInt_number sci NaN = NaN"
| "parseInt_number sci PosInfinity = NaN"
| "parseInt_number sci NegInfinity = NaN"

text \<open>
  \<^verbatim>\<open>a % b\<close>: \<^verbatim>\<open>NaN\<close> when an operand is \<^verbatim>\<open>NaN\<close>, the dividend is infinite or the
  divisor is zero; the dividend when the divisor is infinite; otherwise the remainder of
  the division truncated towards zero, with the sign of the dividend.
\<close>

fun rem :: "number \<Rightarrow> number \<Rightarrow> number" where
  "rem (Fin a) (Fin b) = (if b = 0 then NaN else Fin (a - of_int (trunc (a / b)) * b))"
| "rem (Fin a) PosInfinity = Fin a"
| "rem (Fin a) NegInfinity = Fin a"
| "rem _ _ = NaN"

text \<open>\<^verbatim>\<open>a < b\<close> on numbers; any comparison with \<^verbatim>\<open>NaN\<close> is false. \<^verbatim>\<open>a > b\<close> is \<open>lt b a\<close>.\<close>

fun lt :: "number \<Rightarrow> number \<Rightarrow> bool" where
  "lt (Fin a) (Fin b) = (a < b)"
| "lt NegInfinity (Fin b) = True"
| "lt NegInfinity PosInfinity = True"
| "lt (Fin a) PosInfinity = True"
| "lt _ _ = False"

section \<open>Primitive values and their coercion to numbers\<close>

text \<open>
  The primitive values a caller can hand to \<^verbatim>\<open>setVolume\<close>: \<^verbatim>\<open>undefined\<close> (also a
  missing argument), \<^verbatim>\<open>null\<close>, booleans, numbers and strings. Objects (arrays among
  them), symbols and BigInts are outside the model.
\<close>

datatype jsvalue = JUndefined | JNull | JBool bool | JNum number | JStr string

text \<open>
  \<^verbatim>\<open>!v\<close> is the negation of \<^verbatim>\<open>ToBoolean(v)\<close>: \<^verbatim>\<open>undefined\<close>, \<^verbatim>\<open>null\<close>, \<^verbatim>\<open>false\<close>,
  \<^verbatim>\<open>0\<close>, \<^verbatim>\<open>NaN\<close> and the empty string are falsy.
\<close>

fun truthy_value :: "jsvalue \<Rightarrow> bool" where
  "truthy_value JUndefined = False"
| "truthy_value JNull = False"
| "truthy_value (JBool b) = b"
| "truthy_value (JNum n) = truthy n"
| "truthy_value (JStr s) = (s \<noteq> [])"

text \<open>
  A string of one to fifteen decimal digits, such as \<^verbatim>\<open>'50'\<close>, and the integer it
  writes. \<^verbatim>\<open>Number\<close> and \<^verbatim>\<open>parseInt\<close> both read such a string as that integer, which
  is below \<open>2\<^sup>5\<^sup>3\<close> and so a double.
\<close>

fun position :: "char \<Rightarrow> string \<Rightarrow> nat option" where
  "position c [] = None"
| "position c (d # ds) = (if c = d then Some 0 else map_option Suc (position c ds))"

definition digit :: "char \<Rightarrow> nat option" where
  "digit c = position c ''0123456789''"

fun digits :: "nat \<Rightarrow> string \<Rightarrow> nat option" where
  "digits n [] = Some n"
| "digits n (c # cs) = (case digit c of None \<Rightarrow> None | Some d \<Rightarrow> digits (10 * n + d) cs)"

definition decimal :: "string \<Rightarrow> nat option" where
  "decimal s = (if s = [] \<or> 15 < length s then None else digits 0 s)"

text \<open>
  What the engine makes of any other string (signs, blanks, fractions, exponents, hex
  digits, words) is not spelt out: \<open>string_Number\<close> and \<open>string_parseInt\<close> are
  parameters, as is \<open>exp_int\<close>, the integer read off a number printed in exponent
  notation. Nothing is assumed about the three.
\<close>

record conversions =
  exp_int :: "rat \<Rightarrow> int"
  string_Number :: "string \<Rightarrow> number"
  string_parseInt :: "string \<Rightarrow> number"

text \<open>
  \<^verbatim>\<open>Number(v)\<close>, which is also the number the operators \<^verbatim>\<open>%\<close>, \<^verbatim>\<open><\<close> and \<^verbatim>\<open>>\<close>
  take of \<open>v\<close> when the other operand is a number.
\<close>

fun Number :: "conversions \<Rightarrow> jsvalue \<Rightarrow> number" where
  "Number c JUndefined = NaN"
| "Number c JNull = Fin 0"
| "Number c (JBool b) = (if b then Fin 1 else Fin 0)"
| "Number c (JNum n) = n"
| "Number c (JStr s) = (case decimal s of Some k \<Rightarrow> Fin (of_nat k) | None \<Rightarrow> string_Number c s)"

text \<open>
  \<^verbatim>\<open>parseInt(v)\<close> reads the string of \<open>v\<close>; \<^verbatim>\<open>'undefined'\<close>, \<^verbatim>\<open>'null'\<close>,
  \<^verbatim>\<open>'true'\<close> and \<^verbatim>\<open>'false'\<close> start with no digit.
\<close>

fun parseInt :: "conversions \<Rightarrow> jsvalue \<Rightarrow> number" where
  "parseInt c JUndefined = NaN"
| "parseInt c JNull = NaN"
| "parseInt c (JBool b) = NaN"
| "parseInt c (JNum n) = parseInt_number (exp_int c) n"
| "parseInt c (JStr s) = (case decimal s of Some k \<Rightarrow> Fin (of_nat k) | None \<Rightarrow> string_parseInt c s)"

section \<open>The player and what it does to the outside\<close>

datatype error = Error string | TypeError

text \<open>A Lavalink server connection, as stored in \<^verbatim>\<open>serversStorage\<close> under its host.\<close>

datatype server = Server string

record play_options =
  startsAt :: "nat option"
  endsAt :: "nat option"

text \<open>The packet of a \<^verbatim>\<open>VOICE_SERVER_UPDATE\<close> (\<^verbatim>\<open>packet.d\<close> of the raw gateway event).\<close>

record voice_packet =
  guild_id :: string
  token :: string
  endpoint :: string

text \<open>
  The JSON commands handed to \<^verbatim>\<open>server.send\<close>. The constructor stands for the \<^verbatim>\<open>op\<close>
  (\<^verbatim>\<open>'voiceUpdate'\<close>, \<^verbatim>\<open>'play'\<close>, \<^verbatim>\<open>'stop'\<close>, \<^verbatim>\<open>'pause'\<close>, \<^verbatim>\<open>'volume'\<close>,
  \<^verbatim>\<open>'destroy'\<close>), its first argument is the \<^verbatim>\<open>guildId\<close>, and the others are the
  remaining fields in the order of the source.
\<close>

datatype command =
    VoiceUpdate string "string option" voice_packet
  | Play string string
  | Stop string
  | Pause string bool
  | Volume string jsvalue
  | Destroy string

text \<open>A message of op \<^verbatim>\<open>event\<close> received from the server.\<close>

record message =
  msg_type :: string
  msg_reason :: string

datatype emit_arg = NoArg | Reason "string option" | Message message

text \<open>The voice-state packet (gateway op 4) sent through the chat client's shard.\<close>

record ws_packet =
  ws_op :: nat
  ws_guild_id :: string
  ws_channel_id :: "string option"
  self_mute :: "bool option"
  self_deaf :: "bool option"

text \<open>
  What leaves the library, in the order it happens. Listeners of emitted events and the
  sockets behind the send calls belong to the caller and the two SDKs.
\<close>

datatype effect =
    Send server command "play_options option"
  | Emit string string emit_arg
  | ClientWsSend ws_packet
  | ShardSend string ws_packet
  | ShardSendWS string ws_packet

record player_state =
  volume :: jsvalue
  equalizer :: "nat list"

text \<open>
  The fields of a \<^verbatim>\<open>Player\<close>. \<open>playing\<close> and \<open>track\<close> are not set by the constructor:
  \<open>None\<close> is a property that does not exist; \<open>track\<close> is only ever assigned \<^verbatim>\<open>null\<close>,
  which is \<open>Some ()\<close>. \<open>listeners\<close> is the event emitter's count of listeners per event
  name. The back references \<^verbatim>\<open>client\<close>, \<^verbatim>\<open>playerInstance\<close> and \<^verbatim>\<open>sendWS\<close> are never
  read by a method of the player and are left out.
\<close>

record player =
  server :: server
  guildID :: string
  channelID :: string
  queue :: "string list"
  currentTrack :: "string option"
  isPlaying :: bool
  isPaused :: bool
  state :: player_state
  startPlayingTimestamp :: "nat option"
  playing :: "bool option"
  track :: "unit option"
  listeners :: "string \<Rightarrow> nat"

definition Player :: "server \<Rightarrow> string \<Rightarrow> string \<Rightarrow> player" where
  "Player srv gid cid =
     \<lparr> server = srv, guildID = gid, channelID = cid, queue = [], currentTrack = None,
       isPlaying = False, isPaused = False,
       state = \<lparr> volume = JNum (Fin 100), equalizer = [] \<rparr>,
       startPlayingTimestamp = None, playing = None, track = None,
       listeners = (\<lambda>_. 0) \<rparr>"

text \<open>
  A method runs on the player and the effects so far, and gives back both together with
  either the thrown error or the returned value, so that what a call did before it threw
  stays visible.
\<close>

datatype ret = This | Undefined | RetBool bool

type_synonym world = "player \<times> effect list"

type_synonym outcome = "(error + ret) \<times> world"

text \<open>
  Modelled from the spec: \<^verbatim>\<open>LavalinkWebsocket\<close>, the spec's "websocket forwarder", is not
  among the sources. A call \<^verbatim>\<open>this.server.send(command, options)\<close> is recorded as the
  command handed to the player's server, and returns.
\<close>

definition send :: "command \<Rightarrow> play_options option \<Rightarrow> world \<Rightarrow> world" where
  "send c opts w = (fst w, snd w @ [Send (server (fst w)) c opts])"

text \<open>\<^verbatim>\<open>this.emit(name, arg)\<close> of the event emitter: true when the event has listeners.\<close>

definition emit :: "string \<Rightarrow> emit_arg \<Rightarrow> world \<Rightarrow> bool \<times> world" where
  "emit name arg w =
     (0 < listeners (fst w) name, (fst w, snd w @ [Emit (guildID (fst w)) name arg]))"

definition assign :: "(player \<Rightarrow> player) \<Rightarrow> world \<Rightarrow> world" where
  "assign f w = (f (fst w), snd w)"

text \<open>\<^verbatim>\<open>removeAllListeners()\<close> of the event emitter.\<close>

definition removeAllListeners :: "world \<Rightarrow> world" where
  "removeAllListeners w = assign (\<lambda>p. p\<lparr>listeners := (\<lambda>_. 0)\<rparr>) w"

definition connect :: "string option \<Rightarrow> voice_packet \<Rightarrow> world \<Rightarrow> outcome" where
  "connect session event w =
     (Inr This, send (VoiceUpdate (guildID (fst w)) session event) None w)"

definition stop :: "world \<Rightarrow> outcome" where
  "stop w =
     (let w1 = send (Stop (guildID (fst w))) None w;
          w2 = assign (\<lambda>p. p\<lparr>isPlaying := False\<rparr>) w1;
          w3 = assign (\<lambda>p. p\<lparr>currentTrack := None\<rparr>) w2
      in (Inr This, w3))"

definition disconnect :: "string option \<Rightarrow> world \<Rightarrow> outcome" where
  "disconnect reason w =
     (let w1 = snd (stop w);
          w2 = snd (emit ''disconnect'' (Reason reason) w1);
          w3 = assign (\<lambda>p. p\<lparr>isPlaying := False\<rparr>) w2
      in (Inr This, w3))"

definition getQueue :: "world \<Rightarrow> string list" where
  "getQueue w = queue (fst w)"

text \<open>\<^verbatim>\<open>!track\<close> on a string parameter: \<^verbatim>\<open>undefined\<close> and the empty string are falsy.\<close>

fun falsy_string :: "string option \<Rightarrow> bool" where
  "falsy_string None = True"
| "falsy_string (Some s) = (s = [])"

text \<open>\<open>now\<close> is the value of \<^verbatim>\<open>Date.now()\<close> at the call.\<close>

definition play :: "nat \<Rightarrow> string option \<Rightarrow> play_options option \<Rightarrow> world \<Rightarrow> outcome" where
  "play now trk options w =
     (let opts = (case options of None \<Rightarrow> \<lparr> startsAt = None, endsAt = None \<rparr> | Some r \<Rightarrow> r)
      in case trk of
           None \<Rightarrow> (Inl (Error ''Please provide a valid base64 track!''), w)
         | Some t \<Rightarrow>
             if falsy_string (Some t) then (Inl (Error ''Please provide a valid base64 track!''), w)
             else
               (let w1 = assign (\<lambda>p. p\<lparr>currentTrack := Some t\<rparr>) w;
                    w2 = send (Play (guildID (fst w1)) t) (Some opts) w1;
                    w3 = assign (\<lambda>p. p\<lparr>isPlaying := True\<rparr>) w2;
                    w4 = assign (\<lambda>p. p\<lparr>startPlayingTimestamp := Some now\<rparr>) w3
                in (Inr This, w4)))"

text \<open>\<^verbatim>\<open>paused = true\<close>: a missing argument is \<^verbatim>\<open>true\<close>.\<close>

definition pause :: "bool option \<Rightarrow> world \<Rightarrow> outcome" where
  "pause arg w =
     (let paused = (case arg of None \<Rightarrow> True | Some b \<Rightarrow> b);
          w1 = send (Pause (guildID (fst w)) paused) None w;
          w2 = assign (\<lambda>p. p\<lparr>isPaused := paused\<rparr>) w1;
          w3 = assign (\<lambda>p. p\<lparr>isPlaying := (\<not> \<not> paused)\<rparr>) w2
      in (Inr This, w3))"

text \<open>\<^verbatim>\<open>resume\<close> and \<^verbatim>\<open>skip\<close> call the other method and have no \<^verbatim>\<open>return\<close>.\<close>

definition resume :: "world \<Rightarrow> outcome" where
  "resume w = (Inr Undefined, snd (pause (Some False) w))"

definition skip :: "world \<Rightarrow> outcome" where
  "skip w = (Inr Undefined, snd (stop w))"

text \<open>
  The four tests of \<^verbatim>\<open>setVolume\<close>, in the order of the source, on the value as it was
  passed; \<^verbatim>\<open>force = false\<close> makes a missing \<^verbatim>\<open>force\<close> false. The value sent and stored
  is the argument itself, not its number.
\<close>

definition setVolume :: "conversions \<Rightarrow> jsvalue \<Rightarrow> bool option \<Rightarrow> world \<Rightarrow> outcome" where
  "setVolume c vol arg w =
     (let force = (case arg of None \<Rightarrow> False | Some b \<Rightarrow> b)
      in if \<not> truthy_value vol
           then (Inl (Error ''Please provide a valid volume value!''), w)
         else if \<not> truthy (Number c vol) \<or> rem (Number c vol) (parseInt c vol) \<noteq> Fin 0
           then (Inl (Error ''The volume have to be an integer number!''), w)
         else if lt (Number c vol) (Fin 0) \<or> lt (Fin 1000) (Number c vol)
           then (Inl (Error ''The volume doesn't have to be inferior to 0, or superior to 1000!''), w)
         else if lt (Fin 100) (Number c vol) \<and> \<not> force
           then (Inl (Error ''To set the volume value over 100, you have to set force option to true.''), w)
         else
           (let w1 = send (Volume (guildID (fst w)) vol) None w;
                w2 = assign (\<lambda>p. p\<lparr>state := (state p)\<lparr>volume := vol\<rparr>\<rparr>) w1
            in (Inr This, w2)))"

definition destroy :: "world \<Rightarrow> outcome" where
  "destroy w = (Inr This, send (Destroy (guildID (fst w))) None w)"

definition eventEmitter :: "message \<Rightarrow> world \<Rightarrow> outcome" where
  "eventEmitter m w =
     (if msg_type m = ''TrackStartEvent'' then
        (case emit ''trackStart'' NoArg w of (b, w1) \<Rightarrow> (Inr (RetBool b), w1))
      else if msg_type m = ''TrackEndEvent'' then
        (let w1 = (if msg_reason m \<noteq> ''REPLACED''
                   then assign (\<lambda>p. p\<lparr>track := Some ()\<rparr>) (assign (\<lambda>p. p\<lparr>playing := Some False\<rparr>) w)
                   else w)
         in case emit ''trackEnd'' (Message m) w1 of (b, w2) \<Rightarrow> (Inr (RetBool b), w2))
      else if msg_type m = ''TrackExceptionEvent'' then
        (if 0 < listeners (fst w) ''error''
         then (case emit ''error'' (Message m) w of (b, w1) \<Rightarrow> (Inr (RetBool b), w1))
         else (Inr Undefined, w))
      else if msg_type m = ''TrackStuckEvent'' then
        (let w1 = snd (stop w)
         in case emit ''trackEnd'' (Message m) w1 of (b, w2) \<Rightarrow> (Inr (RetBool b), w2))
      else (Inr Undefined, w))"

section \<open>The player instance\<close>

text \<open>
  The chat client belongs to one of two SDKs, and the code reads it through either API.
  What the code reads is modelled, nothing more. A lookup in a collection
  (\<^verbatim>\<open>.get(id)\<close>) is a map and may find nothing. \<open>guilds_cache\<close> is
  \<^verbatim>\<open>client.guilds.cache\<close>, the discord.js API, and \<open>guilds_get\<close> is
  \<^verbatim>\<open>client.guilds.get\<close>, the Eris API; \<open>None\<close> is a client that lacks the member, on
  which the access raises a \<^verbatim>\<open>TypeError\<close>, as does reading a property of a lookup that
  found nothing.
\<close>

datatype channel_type = TypeName string | TypeCode nat

text \<open>
  \<open>permissions ch user\<close> lists the permission names for which
  \<^verbatim>\<open>ch.permissionsFor(user).has(name)\<close> (discord.js) or
  \<^verbatim>\<open>ch.permissionsOf(user).has(name)\<close> (Eris) is true.
\<close>

record channel =
  channel_type :: channel_type
  permissions :: "string \<Rightarrow> string list"

text \<open>
  \<open>me\<close> is \<^verbatim>\<open>guild.me\<close> of discord.js, \<open>None\<close> when it is \<^verbatim>\<open>null\<close>, and holds
  \<^verbatim>\<open>guild.me.voice.sessionID\<close>. \<open>voiceStates\<close> is the Eris collection of voice states
  by user, each holding its \<^verbatim>\<open>sessionID\<close>.
\<close>

record guild =
  channels :: "string \<rightharpoonup> channel"
  me :: "string option option"
  voiceStates :: "string \<rightharpoonup> string option"

record client =
  user_id :: string
  guilds_cache :: "(string \<rightharpoonup> guild) option"
  guilds_get :: "(string \<rightharpoonup> guild) option"
  ws_send :: bool

datatype engine = Discordjs | Eris

text \<open>
  The constructor accepts the engines \<^verbatim>\<open>'discordjs'\<close> and \<^verbatim>\<open>'eris'\<close> only.
  \<^verbatim>\<open>players\<close> holds the player of each guild; a method called on a stored player
  changes the entry.
\<close>

record player_instance =
  client :: client
  engine :: engine
  serversStorage :: "string \<rightharpoonup> server"
  players :: "string \<rightharpoonup> player"

type_synonym iworld = "player_instance \<times> effect list"

record join_options =
  opt_host :: string
  opt_guildID :: string
  opt_channelID :: string
  opt_muted :: "bool option"
  opt_deafen :: "bool option"

definition sendWS :: "ws_packet \<Rightarrow> iworld \<Rightarrow> (error + unit) \<times> iworld" where
  "sendWS packet w =
     (let c = client (fst w); g = ws_guild_id packet
      in case engine (fst w) of
           Discordjs \<Rightarrow>
             if ws_send c then (Inr (), (fst w, snd w @ [ClientWsSend packet]))
             else (case guilds_cache c of
                     None \<Rightarrow> (Inl TypeError, w)
                   | Some gs \<Rightarrow>
                       (case gs g of
                          None \<Rightarrow> (Inl TypeError, w)
                        | Some _ \<Rightarrow> (Inr (), (fst w, snd w @ [ShardSend g packet]))))
         | Eris \<Rightarrow>
             (case guilds_get c of
                None \<Rightarrow> (Inl TypeError, w)
              | Some gs \<Rightarrow>
                  (case gs g of
                     None \<Rightarrow> (Inl TypeError, w)
                   | Some _ \<Rightarrow> (Inr (), (fst w, snd w @ [ShardSendWS g packet])))))"

definition has :: "channel \<Rightarrow> string \<Rightarrow> string \<Rightarrow> bool" where
  "has ch user name \<longleftrightarrow> name \<in> set (permissions ch user)"

text \<open>The two blocks of the \<^verbatim>\<open>switch\<close> in \<^verbatim>\<open>join\<close>; \<open>None\<close> is a block that runs through.\<close>

definition join_discordjs :: "client \<Rightarrow> join_options \<Rightarrow> error option" where
  "join_discordjs c options =
     (case guilds_cache c of
        None \<Rightarrow> Some TypeError
      | Some gs \<Rightarrow>
          (case gs (opt_guildID options) of
             None \<Rightarrow> Some TypeError
           | Some g \<Rightarrow>
               (case channels g (opt_channelID options) of
                  None \<Rightarrow> Some (Error ''Channel not found. Please verify that the channel exists and is a voice channel.'')
                | Some ch \<Rightarrow>
                    if channel_type ch \<noteq> TypeName ''voice''
                      then Some (Error ''Channel not found. Please verify that the channel exists and is a voice channel.'')
                    else if \<not> has ch (user_id c) ''CONNECT'' \<or> \<not> has ch (user_id c) ''SPEAK''
                      then Some (Error ''I don't have the right permissions to connect and speak in this voice channel.'')
                    else None)))"

definition join_eris :: "client \<Rightarrow> join_options \<Rightarrow> error option" where
  "join_eris c options =
     (case guilds_get c of
        None \<Rightarrow> Some TypeError
      | Some gs \<Rightarrow>
          (case gs (opt_guildID options) of
             None \<Rightarrow> Some TypeError
           | Some g \<Rightarrow>
               (case channels g (opt_channelID options) of
                  None \<Rightarrow> Some (Error ''Channel not found. Please verify that the channel exists and is a voice channel.'')
                | Some ch \<Rightarrow>
                    if channel_type ch \<noteq> TypeCode 2
                      then Some (Error ''Channel not found. Please verify that the channel exists and is a voice channel.'')
                    else if \<not> has ch (user_id c) ''voiceConnect'' \<or> \<not> has ch (user_id c) ''voiceSpeak''
                      then Some (Error ''I don't have the right permissions to connect and speak in this voice channel.'')
                    else None)))"

text \<open>
  The \<^verbatim>\<open>'discordjs'\<close> case of the \<^verbatim>\<open>switch\<close> has no \<^verbatim>\<open>break\<close>: when its block runs
  through, control falls into the \<^verbatim>\<open>'eris'\<close> block.
\<close>

definition join_switch :: "player_instance \<Rightarrow> join_options \<Rightarrow> error option" where
  "join_switch i options =
     (case engine i of
        Discordjs \<Rightarrow>
          (case join_discordjs (client i) options of
             Some e \<Rightarrow> Some e
           | None \<Rightarrow> join_eris (client i) options)
      | Eris \<Rightarrow> join_eris (client i) options)"

definition returnPlayer :: "string \<Rightarrow> string \<Rightarrow> string \<Rightarrow> iworld \<Rightarrow> (error + player) \<times> iworld" where
  "returnPlayer host g ch w =
     (case players (fst w) g of
        Some player \<Rightarrow> (Inr player, w)
      | None \<Rightarrow>
          (case serversStorage (fst w) host of
             None \<Rightarrow>
               (Inl (Error (''No Lavalink server found at host '' @ host @ ''. Please provide a valid host.'')), w)
           | Some srv \<Rightarrow>
               (let player = Player srv g ch
                in (Inr player, ((fst w)\<lparr>players := (players (fst w))(g \<mapsto> player)\<rparr>, snd w)))))"

definition join_packet :: "join_options \<Rightarrow> ws_packet" where
  "join_packet options =
     \<lparr> ws_op = 4, ws_guild_id = opt_guildID options, ws_channel_id = Some (opt_channelID options),
       self_mute = opt_muted options, self_deaf = opt_deafen options \<rparr>"

definition join :: "join_options option \<Rightarrow> iworld \<Rightarrow> (error + player) \<times> iworld" where
  "join arg w =
     (case arg of
        None \<Rightarrow> (Inl (Error ''Please provide valid options to join a voice channel!''), w)
      | Some options \<Rightarrow>
          (case players (fst w) (opt_guildID options) of
             Some player \<Rightarrow> (Inr player, w)
           | None \<Rightarrow>
               (case join_switch (fst w) options of
                  Some e \<Rightarrow> (Inl e, w)
                | None \<Rightarrow>
                    (case sendWS (join_packet options) w of
                       (Inl e, w1) \<Rightarrow> (Inl e, w1)
                     | (Inr _, w1) \<Rightarrow>
                         returnPlayer (opt_host options) (opt_guildID options) (opt_channelID options) w1))))"

definition leave_packet :: "string \<Rightarrow> ws_packet" where
  "leave_packet g =
     \<lparr> ws_op = 4, ws_guild_id = g, ws_channel_id = None,
       self_mute = Some False, self_deaf = Some False \<rparr>"

text \<open>
  The two \<^verbatim>\<open>await\<close>s in \<^verbatim>\<open>leave\<close> wait on values that are not promises; the calls
  run in order, and what other callbacks do in between is not modelled.
\<close>

definition leave :: "string option \<Rightarrow> iworld \<Rightarrow> (error + bool) \<times> iworld" where
  "leave arg w =
     (case arg of
        None \<Rightarrow> (Inl (Error ''Please provide a valid guild ID to leave a voice channel!''), w)
      | Some g \<Rightarrow>
          if falsy_string (Some g)
            then (Inl (Error ''Please provide a valid guild ID to leave a voice channel!''), w)
          else
            (case sendWS (leave_packet g) w of
               (Inl e, w1) \<Rightarrow> (Inl e, w1)
             | (Inr _, w1) \<Rightarrow>
                 (case players (fst w1) g of
                    None \<Rightarrow> (Inr False, w1)
                  | Some player \<Rightarrow>
                      (let pw1 = removeAllListeners (player, snd w1);
                           pw2 = snd (stop pw1);
                           pw3 = snd (destroy pw2)
                       in (Inr True, ((fst w1)\<lparr>players := (players (fst w1))(g := None)\<rparr>, snd pw3))))))"

text \<open>The session ID handed to \<^verbatim>\<open>player.connect\<close>, read from the guild through the engine's API.\<close>

definition session :: "player_instance \<Rightarrow> guild \<Rightarrow> error + string option" where
  "session i g =
     (case engine i of
        Discordjs \<Rightarrow> (case me g of None \<Rightarrow> Inl TypeError | Some sid \<Rightarrow> Inr sid)
      | Eris \<Rightarrow>
          (case voiceStates g (user_id (client i)) of
             None \<Rightarrow> Inl TypeError
           | Some sid \<Rightarrow> Inr sid))"

definition voiceServerUpdate :: "voice_packet \<Rightarrow> iworld \<Rightarrow> (error + unit) \<times> iworld" where
  "voiceServerUpdate packet w =
     (case players (fst w) (guild_id packet) of
        None \<Rightarrow> (Inr (), w)
      | Some player \<Rightarrow>
          (case (case engine (fst w) of
                   Discordjs \<Rightarrow> guilds_cache (client (fst w))
                 | Eris \<Rightarrow> guilds_get (client (fst w))) of
             None \<Rightarrow> (Inl TypeError, w)
           | Some gs \<Rightarrow>
               (case gs (guild_id packet) of
                  None \<Rightarrow> (Inr (), w)
                | Some g \<Rightarrow>
                    (case session (fst w) g of
                       Inl e \<Rightarrow> (Inl e, w)
                     | Inr sid \<Rightarrow>
                         (case snd (connect sid packet (player, snd w)) of
                            (player1, es1) \<Rightarrow>
                              (Inr (),
                               ((fst w)\<lparr>players := (players (fst w))(guild_id packet \<mapsto> player1)\<rparr>,
                                es1)))))))"

text \<open>Every stored player was made for the guild it is stored under.\<close>

definition keyed :: "player_instance \<Rightarrow> bool" where
  "keyed i \<longleftrightarrow> (\<forall>g p. players i g = Some p \<longrightarrow> guildID p = g)"

section \<open>Notions of the specification\<close>



text \<open>\<^verbatim>\<open>Boolean(p)\<close> of a boolean argument that may be left out: \<^verbatim>\<open>Boolean(undefined)\<close> is false.\<close>

fun ToBoolean :: "bool option \<Rightarrow> bool" where
  "ToBoolean None = False"
| "ToBoolean (Some b) = b"

text \<open>
  The guild as the chat client knows it, looked up the way \<^verbatim>\<open>voiceServerUpdate\<close> does:
  in \<^verbatim>\<open>client.guilds.cache\<close> under discord.js and in \<^verbatim>\<open>client.guilds\<close> under Eris.
\<close>

definition known_guild :: "player_instance \<Rightarrow> string \<Rightarrow> guild option" where
  "known_guild i g =
     (case (case engine i of Discordjs \<Rightarrow> guilds_cache (client i) | Eris \<Rightarrow> guilds_get (client i)) of
        None \<Rightarrow> None
      | Some gs \<Rightarrow> gs g)"

section \<open>Example states\<close>

text \<open>
  An Eris client (user \<open>9\<close>) in guild \<open>1\<close>, whose channel \<open>2\<close> is a voice channel the
  client may connect to and speak in, with one Lavalink server at \<open>localhost\<close>.
\<close>

definition eris_channel :: channel where
  "eris_channel =
     \<lparr> channel_type = TypeCode 2, permissions = (\<lambda>_. [''voiceConnect'', ''voiceSpeak'']) \<rparr>"

definition eris_guild :: guild where
  "eris_guild =
     \<lparr> channels = [''2'' \<mapsto> eris_channel], me = None, voiceStates = [''9'' \<mapsto> Some ''s1''] \<rparr>"

definition eris_client :: client where
  "eris_client =
     \<lparr> user_id = ''9'', guilds_cache = None, guilds_get = Some [''1'' \<mapsto> eris_guild],
       ws_send = False \<rparr>"

definition eris_instance :: player_instance where
  "eris_instance =
     \<lparr> client = eris_client, engine = Eris,
       serversStorage = [''localhost'' \<mapsto> Server ''localhost''], players = Map.empty \<rparr>"

definition eris_options :: join_options where
  "eris_options =
     \<lparr> opt_host = ''localhost'', opt_guildID = ''1'', opt_channelID = ''2'',
       opt_muted = None, opt_deafen = None \<rparr>"

text \<open>The instance after joining guild \<open>1\<close>.\<close>

definition joined_instance :: player_instance where
  "joined_instance =
     eris_instance\<lparr>players := [''1'' \<mapsto> Player (Server ''localhost'') ''1'' ''2'']\<rparr>"

text \<open>The same, with a guild that holds no voice state for the client user.\<close>

definition silent_instance :: player_instance where
  "silent_instance =
     joined_instance\<lparr>client := eris_client\<lparr>guilds_get :=
       Some [''1'' \<mapsto> eris_guild\<lparr>voiceStates := Map.empty\<rparr>]\<rparr>\<rparr>"

text \<open>Conversions that read a one for every exponent notation and \<^verbatim>\<open>NaN\<close> for every other string.\<close>

definition plain_conversions :: conversions where
  "plain_conversions =
     \<lparr> exp_int = (\<lambda>_. 1), string_Number = (\<lambda>_. NaN), string_parseInt = (\<lambda>_. NaN) \<rparr>"

definition update_packet :: voice_packet where
  "update_packet = \<lparr> guild_id = ''1'', token = ''t'', endpoint = ''e'' \<rparr>"

section \<open>Arithmetic of the integer test\<close>



lemma decimal_notation_of_int: "decimal_notation (of_int n) \<longleftrightarrow> \<bar>n\<bar> < 10 ^ 21"
proof (cases "n = 0")
  case True
  then show ?thesis by (simp add: decimal_notation_def)
next
  case False
  then have "1 \<le> \<bar>n\<bar>" by simp
  then have "(1::rat) \<le> \<bar>of_int n\<bar>" by (metis of_int_abs of_int_1_le_iff)
  moreover have "(1::rat) / 10 ^ 6 \<le> 1" by simp
  ultimately have small: "(1::rat) / 10 ^ 6 \<le> \<bar>of_int n\<bar>" by linarith
  have large: "(\<bar>of_int n\<bar> < (10::rat) ^ 21) = (\<bar>n\<bar> < 10 ^ 21)"
    by (metis of_int_abs of_int_less_iff of_int_numeral of_int_power)
  show ?thesis using small large False by (simp add: decimal_notation_def)
qed

lemma rem_parseInt_integer:
  "n \<noteq> 0 \<Longrightarrow> \<bar>n\<bar> < 10 ^ 21 \<Longrightarrow> rem (Fin (of_int n)) (parseInt_number sci (Fin (of_int n))) = Fin 0"
  by (simp add: decimal_notation_of_int trunc_def)


section \<open>Setting the volume\<close>

text \<open>Every integer volume from 1 to 1000 is accepted with \<^verbatim>\<open>force\<close>: the command is sent and the volume stored.\<close>

lemma setVolume_accepts:
  assumes "1 \<le> n" "n \<le> 1000"
  shows "setVolume c (JNum (Fin (of_int n))) (Some True) (p, es) =
     (Inr This, (p\<lparr>state := (state p)\<lparr>volume := JNum (Fin (of_int n))\<rparr>\<rparr>,
                 es @ [Send (server p) (Volume (guildID p) (JNum (Fin (of_int n)))) None]))"
proof -
  have r: "rem (Fin (of_int n)) (parseInt_number (exp_int c) (Fin (of_int n))) = Fin 0"
    using assms by (intro rem_parseInt_integer) auto
  show ?thesis using assms r
    by (simp add: setVolume_def send_def assign_def del: parseInt_number.simps rem.simps)
qed

text \<open>
  C1. The claim: every integer volume from 0 to 1000 is accepted by \<^verbatim>\<open>setVolume(v, true)\<close>,
  sent as a \<^verbatim>\<open>volume\<close> command and stored. At volume 0 the first test, \<^verbatim>\<open>!volume\<close>,
  is true, and the call throws the error meant for a missing value, although the range
  test that follows would let 0 through: nothing is sent and the volume is not stored.
\<close>

theorem setVolume_zero_throws:
  "setVolume c (JNum (Fin 0)) (Some True) w =
     (Inl (Error ''Please provide a valid volume value!''), w)"
  by (simp add: setVolume_def)

theorem setVolume_zero_throws_witness:
  "setVolume plain_conversions (JNum (Fin 0)) (Some True) (Player (Server ''localhost'') ''1'' ''2'', []) =
     (Inl (Error ''Please provide a valid volume value!''), (Player (Server ''localhost'') ''1'' ''2'', []))"
  using setVolume_zero_throws [where c = plain_conversions
      and w = "(Player (Server ''localhost'') ''1'' ''2'', [])"]
  by simp


text \<open>
  A string of digits that spells an integer from 1 to 1000 is accepted with \<^verbatim>\<open>force\<close> as
  the number is, and is sent and stored as the string it is.
\<close>

lemma setVolume_accepts_digits:
  assumes "decimal s = Some k" "1 \<le> k" "k \<le> 1000"
  shows "setVolume c (JStr s) (Some True) (p, es) =
     (Inr This, (p\<lparr>state := (state p)\<lparr>volume := JStr s\<rparr>\<rparr>,
                 es @ [Send (server p) (Volume (guildID p) (JStr s)) None]))"
proof -
  from assms(1) have ne: "s \<noteq> []" by (auto simp: decimal_def split: if_splits)
  from assms(2) have nz: "(of_nat k :: rat) \<noteq> 0" by simp
  then have r: "rem (Fin (of_nat k)) (Fin (of_nat k)) = Fin 0" by (simp add: trunc_def)
  show ?thesis using assms ne r
    by (simp add: setVolume_def send_def assign_def del: rem.simps)
qed




section \<open>Playing, stopping, pausing\<close>

text \<open>
  C3. \<^verbatim>\<open>play(track, options)\<close> throws exactly when the track is falsy, and then changes
  nothing; otherwise it sends a \<^verbatim>\<open>play\<close> command with the player's guild ID and the
  track, sets \<^verbatim>\<open>currentTrack\<close> to the track and \<^verbatim>\<open>isPlaying\<close> to true.
\<close>

theorem play_throws_iff_falsy:
  "((\<exists>e. fst (play now trk options (p, es)) = Inl e) \<longleftrightarrow> falsy_string trk) \<and>
   (falsy_string trk \<longrightarrow>
      play now trk options (p, es) = (Inl (Error ''Please provide a valid base64 track!''), (p, es))) \<and>
   (\<not> falsy_string trk \<longrightarrow>
      play now trk options (p, es) =
        (Inr This,
         (p\<lparr>currentTrack := trk, isPlaying := True, startPlayingTimestamp := Some now\<rparr>,
          es @ [Send (server p) (Play (guildID p) (the trk))
                  (Some (case options of None \<Rightarrow> \<lparr>startsAt = None, endsAt = None\<rparr> | Some r \<Rightarrow> r))])))"
  by (cases trk) (auto simp: play_def send_def assign_def Let_def)

theorem play_throws_iff_falsy_witness:
  "play 1000 (Some ''QAAAjQ=='') None (Player (Server ''localhost'') ''1'' ''2'', []) =
     (Inr This,
      ((Player (Server ''localhost'') ''1'' ''2'')
         \<lparr>currentTrack := Some ''QAAAjQ=='', isPlaying := True, startPlayingTimestamp := Some 1000\<rparr>,
       [Send (Server ''localhost'') (Play ''1'' ''QAAAjQ=='') (Some \<lparr>startsAt = None, endsAt = None\<rparr>)]))
   \<and> (\<exists>e. fst (play 1000 (Some []) None (Player (Server ''localhost'') ''1'' ''2'', [])) = Inl e)"
  using play_throws_iff_falsy [where now = 1000 and trk = "Some ''QAAAjQ==''" and options = None
      and p = "Player (Server ''localhost'') ''1'' ''2''" and es = "[]"]
    play_throws_iff_falsy [where now = 1000 and trk = "Some []" and options = None
      and p = "Player (Server ''localhost'') ''1'' ''2''" and es = "[]"]
  by (simp add: Player_def)

text \<open>
  C7. \<^verbatim>\<open>stop()\<close> sends a \<^verbatim>\<open>stop\<close> command for the player's guild, sets \<^verbatim>\<open>isPlaying\<close> to
  false and \<^verbatim>\<open>currentTrack\<close> to \<^verbatim>\<open>undefined\<close>; \<^verbatim>\<open>disconnect(reason)\<close> ends in the same
  player, having sent the \<^verbatim>\<open>stop\<close> command before it emits \<^verbatim>\<open>disconnect\<close>.
\<close>

theorem stop_and_disconnect:
  "stop (p, es) =
     (Inr This, (p\<lparr>isPlaying := False, currentTrack := None\<rparr>,
                 es @ [Send (server p) (Stop (guildID p)) None])) \<and>
   disconnect reason (p, es) =
     (Inr This, (p\<lparr>isPlaying := False, currentTrack := None\<rparr>,
                 es @ [Send (server p) (Stop (guildID p)) None,
                       Emit (guildID p) ''disconnect'' (Reason reason)]))"
  by (simp add: stop_def disconnect_def emit_def send_def assign_def Let_def)

text \<open>
  C8, as claimed: after \<^verbatim>\<open>pause(p)\<close> both \<^verbatim>\<open>isPaused\<close> and \<^verbatim>\<open>isPlaying\<close> equal
  \<^verbatim>\<open>Boolean(p)\<close> for every argument. With the argument left out the parameter defaults to
  \<^verbatim>\<open>true\<close>, so \<^verbatim>\<open>isPaused\<close> is true while \<^verbatim>\<open>Boolean(undefined)\<close> is false.
\<close>

theorem pause_missing_argument:
  "isPaused (fst (snd (pause None (Player (Server ''localhost'') ''1'' ''2'', [])))) \<noteq> ToBoolean None"
  by (simp add: pause_def send_def assign_def Let_def)

text \<open>
  C8, amended: after \<^verbatim>\<open>pause(p)\<close> with a boolean \<open>p\<close> both \<^verbatim>\<open>isPaused\<close> and
  \<^verbatim>\<open>isPlaying\<close> equal \<open>p\<close>, and after \<^verbatim>\<open>pause()\<close> both are true; in particular pausing
  leaves \<^verbatim>\<open>isPlaying\<close> true and resuming leaves it false.
\<close>

theorem pause_sets_both:
  "isPaused (fst (snd (pause (Some b) w))) = ToBoolean (Some b) \<and>
   isPlaying (fst (snd (pause (Some b) w))) = ToBoolean (Some b) \<and>
   isPaused (fst (snd (pause None w))) = True \<and>
   isPlaying (fst (snd (pause None w))) = True \<and>
   isPlaying (fst (snd (pause (Some True) w))) = True \<and>
   isPlaying (fst (snd (pause (Some False) w))) = False"
  by (simp add: pause_def send_def assign_def Let_def)

text \<open>
  C9. A \<^verbatim>\<open>TrackEndEvent\<close> leaves \<^verbatim>\<open>currentTrack\<close> and \<^verbatim>\<open>isPlaying\<close> as they were,
  whatever the reason: the only assignments, made when the reason is not \<^verbatim>\<open>REPLACED\<close>,
  are to the fields \<^verbatim>\<open>playing\<close> and \<^verbatim>\<open>track\<close>; \<^verbatim>\<open>trackEnd\<close> is emitted with the message.
\<close>

theorem trackEnd_frame:
  assumes "msg_type m = ''TrackEndEvent''"
  shows "eventEmitter m (p, es) =
           (Inr (RetBool (0 < listeners p ''trackEnd'')),
            (if msg_reason m \<noteq> ''REPLACED'' then p\<lparr>playing := Some False, track := Some ()\<rparr> else p,
             es @ [Emit (guildID p) ''trackEnd'' (Message m)])) \<and>
         currentTrack (fst (snd (eventEmitter m (p, es)))) = currentTrack p \<and>
         isPlaying (fst (snd (eventEmitter m (p, es)))) = isPlaying p"
  using assms by (simp add: eventEmitter_def emit_def assign_def Let_def)

theorem trackEnd_frame_witness:
  "currentTrack (fst (snd (eventEmitter \<lparr>msg_type = ''TrackEndEvent'', msg_reason = ''FINISHED''\<rparr>
      ((Player (Server ''localhost'') ''1'' ''2'')\<lparr>currentTrack := Some ''QAAAjQ=='', isPlaying := True\<rparr>, []))))
     = Some ''QAAAjQ=='' \<and>
   isPlaying (fst (snd (eventEmitter \<lparr>msg_type = ''TrackEndEvent'', msg_reason = ''FINISHED''\<rparr>
      ((Player (Server ''localhost'') ''1'' ''2'')\<lparr>currentTrack := Some ''QAAAjQ=='', isPlaying := True\<rparr>, []))))"
  using trackEnd_frame [where m = "\<lparr>msg_type = ''TrackEndEvent'', msg_reason = ''FINISHED''\<rparr>"
      and p = "(Player (Server ''localhost'') ''1'' ''2'')\<lparr>currentTrack := Some ''QAAAjQ=='', isPlaying := True\<rparr>"
      and es = "[]"]
  by simp

text \<open>
  C10. \<^verbatim>\<open>resume()\<close> and \<^verbatim>\<open>skip()\<close> return \<^verbatim>\<open>undefined\<close>, while \<^verbatim>\<open>pause(false)\<close> and
  \<^verbatim>\<open>stop()\<close>, whose effect they have, return the player.
\<close>

theorem resume_skip_return_undefined:
  "fst (resume w) = Inr Undefined \<and> snd (resume w) = snd (pause (Some False) w) \<and>
   fst (skip w) = Inr Undefined \<and> snd (skip w) = snd (stop w) \<and>
   fst (pause (Some False) w) = Inr This \<and> fst (stop w) = Inr This"
  by (simp add: resume_def skip_def pause_def stop_def Let_def)

section \<open>Sending through the shard\<close>

text \<open>\<^verbatim>\<open>sendWS\<close> either throws and leaves everything as it was, or hands over exactly one packet.\<close>

lemma sendWS_cases:
  "(\<exists>e. sendWS packet (i, es) = (Inl e, (i, es))) \<or>
   (\<exists>eff. sendWS packet (i, es) = (Inr (), (i, es @ [eff])) \<and>
          eff \<in> {ClientWsSend packet, ShardSend (ws_guild_id packet) packet,
                 ShardSendWS (ws_guild_id packet) packet})"
  by (simp add: sendWS_def Let_def split: engine.splits option.splits)

lemma sendWS_Inr:
  assumes "sendWS packet (i, es) = (Inr u, w1)"
  shows "\<exists>eff. w1 = (i, es @ [eff]) \<and>
          eff \<in> {ClientWsSend packet, ShardSend (ws_guild_id packet) packet,
                 ShardSendWS (ws_guild_id packet) packet}"
  using assms sendWS_cases [of packet i es] by auto

section \<open>Joining\<close>

lemma join_existing:
  "players i (opt_guildID options) = Some p \<Longrightarrow> join (Some options) (i, es) = (Inr p, (i, es))"
  by (simp add: join_def)

lemma join_new:
  assumes none: "players i (opt_guildID options) = None"
      and ok: "join (Some options) (i, es) = (Inr p, (i', es'))"
  shows "(\<exists>srv. serversStorage i (opt_host options) = Some srv \<and>
                 p = Player srv (opt_guildID options) (opt_channelID options)) \<and>
         i' = i\<lparr>players := (players i)(opt_guildID options \<mapsto> p)\<rparr> \<and>
         (\<exists>eff. es' = es @ [eff] \<and>
            eff \<in> {ClientWsSend (join_packet options), ShardSend (opt_guildID options) (join_packet options),
                   ShardSendWS (opt_guildID options) (join_packet options)})"
proof -
  from none ok have sw: "join_switch i options = None"
    by (auto simp: join_def split: option.splits)
  obtain r w1 where s: "sendWS (join_packet options) (i, es) = (r, w1)"
    by (cases "sendWS (join_packet options) (i, es)") blast
  with none ok sw obtain u where r: "r = Inr u"
    by (cases r) (auto simp: join_def)
  from sendWS_Inr [OF s [unfolded r]] obtain eff where
    w1: "w1 = (i, es @ [eff])" and
    eff: "eff \<in> {ClientWsSend (join_packet options), ShardSend (ws_guild_id (join_packet options)) (join_packet options),
                   ShardSendWS (ws_guild_id (join_packet options)) (join_packet options)}" by blast
  from none ok sw s r w1
  have rp: "returnPlayer (opt_host options) (opt_guildID options) (opt_channelID options) (i, es @ [eff]) = (Inr p, (i', es'))"
    by (simp add: join_def)
  with none show ?thesis using eff
    by (auto simp: returnPlayer_def Let_def join_packet_def split: option.splits)
qed

text \<open>
  C4. \<^verbatim>\<open>join\<close> creates on the first join and is idempotent per guild. With a player
  stored for the guild, \<^verbatim>\<open>join\<close> returns it and changes and sends nothing. With none
  stored, a join that returns has made one new player for the guild and channel on the
  server of the given host, stored it under the guild ID and nowhere else, and sent one
  voice-state packet; every join for the same guild after it returns that player, with the
  players and the effects as they were.
\<close>

theorem join_creates_once:
  "(players i (opt_guildID options) = Some p \<longrightarrow> join (Some options) (i, es) = (Inr p, (i, es))) \<and>
   (players i (opt_guildID options) = None \<and> join (Some options) (i, es) = (Inr p, (i', es')) \<longrightarrow>
      (\<exists>srv. serversStorage i (opt_host options) = Some srv \<and>
             p = Player srv (opt_guildID options) (opt_channelID options)) \<and>
      i' = i\<lparr>players := (players i)(opt_guildID options \<mapsto> p)\<rparr> \<and>
      (\<exists>eff. es' = es @ [eff] \<and>
         eff \<in> {ClientWsSend (join_packet options), ShardSend (opt_guildID options) (join_packet options),
                ShardSendWS (opt_guildID options) (join_packet options)}) \<and>
      (\<forall>again. opt_guildID again = opt_guildID options \<longrightarrow>
         join (Some again) (i', es') = (Inr p, (i', es'))))"
proof (intro conjI impI)
  assume "players i (opt_guildID options) = Some p"
  then show "join (Some options) (i, es) = (Inr p, (i, es))" by (rule join_existing)
next
  assume a: "players i (opt_guildID options) = None \<and> join (Some options) (i, es) = (Inr p, (i', es'))"
  then have n: "(\<exists>srv. serversStorage i (opt_host options) = Some srv \<and>
                 p = Player srv (opt_guildID options) (opt_channelID options)) \<and>
         i' = i\<lparr>players := (players i)(opt_guildID options \<mapsto> p)\<rparr> \<and>
         (\<exists>eff. es' = es @ [eff] \<and>
            eff \<in> {ClientWsSend (join_packet options), ShardSend (opt_guildID options) (join_packet options),
                   ShardSendWS (opt_guildID options) (join_packet options)})"
    using join_new by blast
  from n show "\<exists>srv. serversStorage i (opt_host options) = Some srv \<and>
             p = Player srv (opt_guildID options) (opt_channelID options)" by blast
  from n show "i' = i\<lparr>players := (players i)(opt_guildID options \<mapsto> p)\<rparr>" by blast
  from n show "\<exists>eff. es' = es @ [eff] \<and>
         eff \<in> {ClientWsSend (join_packet options), ShardSend (opt_guildID options) (join_packet options),
                ShardSendWS (opt_guildID options) (join_packet options)}" by blast
  from n have "players i' (opt_guildID options) = Some p" by simp
  then show "\<forall>again. opt_guildID again = opt_guildID options \<longrightarrow>
         join (Some again) (i', es') = (Inr p, (i', es'))"
    using join_existing by metis
qed

lemma eris_join:
  "join (Some eris_options) (eris_instance, []) =
     (Inr (Player (Server ''localhost'') ''1'' ''2''),
      (eris_instance\<lparr>players := [''1'' \<mapsto> Player (Server ''localhost'') ''1'' ''2'']\<rparr>,
       [ShardSendWS ''1'' (join_packet eris_options)]))"
  by (simp add: join_def join_switch_def join_eris_def sendWS_def returnPlayer_def has_def
      eris_instance_def eris_client_def eris_guild_def eris_channel_def eris_options_def join_packet_def Let_def)

theorem join_creates_once_witness:
  "players eris_instance (opt_guildID eris_options) = None \<and>
   join (Some eris_options) (eris_instance, []) =
     (Inr (Player (Server ''localhost'') ''1'' ''2''),
      (eris_instance\<lparr>players := [''1'' \<mapsto> Player (Server ''localhost'') ''1'' ''2'']\<rparr>,
       [ShardSendWS ''1'' (join_packet eris_options)])) \<and>
   join (Some eris_options)
        (eris_instance\<lparr>players := [''1'' \<mapsto> Player (Server ''localhost'') ''1'' ''2'']\<rparr>,
         [ShardSendWS ''1'' (join_packet eris_options)]) =
     (Inr (Player (Server ''localhost'') ''1'' ''2''),
      (eris_instance\<lparr>players := [''1'' \<mapsto> Player (Server ''localhost'') ''1'' ''2'']\<rparr>,
       [ShardSendWS ''1'' (join_packet eris_options)]))"
proof -
  have none: "players eris_instance (opt_guildID eris_options) = None"
    by (simp add: eris_instance_def)
  note first = eris_join
  from join_creates_once [where i = eris_instance and options = eris_options and es = "[]"
      and p = "Player (Server ''localhost'') ''1'' ''2''"
      and i' = "eris_instance\<lparr>players := [''1'' \<mapsto> Player (Server ''localhost'') ''1'' ''2'']\<rparr>"
      and es' = "[ShardSendWS ''1'' (join_packet eris_options)]"] none first
  have "\<forall>again. opt_guildID again = opt_guildID eris_options \<longrightarrow>
          join (Some again) (eris_instance\<lparr>players := [''1'' \<mapsto> Player (Server ''localhost'') ''1'' ''2'']\<rparr>,
             [ShardSendWS ''1'' (join_packet eris_options)]) =
          (Inr (Player (Server ''localhost'') ''1'' ''2''),
           (eris_instance\<lparr>players := [''1'' \<mapsto> Player (Server ''localhost'') ''1'' ''2'']\<rparr>,
            [ShardSendWS ''1'' (join_packet eris_options)]))"
    by blast
  then have "join (Some eris_options) (eris_instance\<lparr>players := [''1'' \<mapsto> Player (Server ''localhost'') ''1'' ''2'']\<rparr>,
             [ShardSendWS ''1'' (join_packet eris_options)]) =
          (Inr (Player (Server ''localhost'') ''1'' ''2''),
           (eris_instance\<lparr>players := [''1'' \<mapsto> Player (Server ''localhost'') ''1'' ''2'']\<rparr>,
            [ShardSendWS ''1'' (join_packet eris_options)]))"
    by blast
  with none first show ?thesis by blast
qed



text \<open>
  Under the engine \<^verbatim>\<open>'discordjs'\<close> the fall-through makes a first join read the client
  through both APIs: on a client that has only one of them it throws.
\<close>

lemma join_discordjs_needs_both_apis:
  assumes "engine i = Discordjs" "players i (opt_guildID options) = None"
    and "guilds_cache (client i) = None \<or> guilds_get (client i) = None"
  shows "\<exists>e. join (Some options) (i, es) = (Inl e, (i, es))"
  using assms
  by (auto simp: join_def join_switch_def join_discordjs_def join_eris_def split: option.splits)

section \<open>Leaving\<close>

lemma leave_missing:
  "falsy_string arg \<Longrightarrow>
   leave arg w = (Inl (Error ''Please provide a valid guild ID to leave a voice channel!''), w)"
  by (cases arg) (simp_all add: leave_def)

lemma leave_no_player:
  "sendWS (leave_packet g) (i, es) = (Inr u, (i, es1)) \<Longrightarrow> g \<noteq> [] \<Longrightarrow> players i g = None \<Longrightarrow>
   leave (Some g) (i, es) = (Inr False, (i, es1))"
  by (simp add: leave_def)

lemma leave_player:
  "sendWS (leave_packet g) (i, es) = (Inr u, (i, es1)) \<Longrightarrow> g \<noteq> [] \<Longrightarrow> players i g = Some p \<Longrightarrow>
   leave (Some g) (i, es) =
     (Inr True, (i\<lparr>players := (players i)(g := None)\<rparr>,
                 es1 @ [Send (server p) (Stop (guildID p)) None, Send (server p) (Destroy (guildID p)) None]))"
  by (simp add: leave_def removeAllListeners_def stop_def destroy_def send_def assign_def Let_def)

text \<open>
  C5, as claimed: \<^verbatim>\<open>leave\<close> throws only when the guild ID is missing. Under Eris the
  voice-state packet is sent through the shard of the guild, looked up in the client's
  guilds before the player is: for a guild the client does not hold, the lookup finds
  nothing and reading its shard raises a \<^verbatim>\<open>TypeError\<close>, with a guild ID given.
\<close>

theorem leave_unknown_guild_throws:
  "\<not> falsy_string (Some ''7'') \<and>
   leave (Some ''7'') (eris_instance, []) = (Inl TypeError, (eris_instance, []))"
  by (simp add: leave_def sendWS_def leave_packet_def eris_instance_def eris_client_def Let_def)

text \<open>
  C5, amended: \<^verbatim>\<open>leave\<close> throws exactly when the guild ID is missing or sending the
  voice-state packet throws; on a missing guild ID nothing is sent or changed. When
  \<^verbatim>\<open>leave(guildID)\<close> returns, the packet has been sent and no player is stored for the
  guild: it returns false and changes nothing else when there was none, and returns true
  when there was one, which has been sent \<^verbatim>\<open>stop\<close> and \<^verbatim>\<open>destroy\<close> and removed.
\<close>

theorem leave_deletes:
  "((\<exists>e. fst (leave arg (i, es)) = Inl e) \<longleftrightarrow>
      falsy_string arg \<or> (\<exists>e. fst (sendWS (leave_packet (the arg)) (i, es)) = Inl e)) \<and>
   (falsy_string arg \<longrightarrow> snd (leave arg (i, es)) = (i, es)) \<and>
   (\<forall>g r i' es'. arg = Some g \<and> leave arg (i, es) = (Inr r, (i', es')) \<longrightarrow>
      players i' g = None \<and>
      (\<exists>eff. sendWS (leave_packet g) (i, es) = (Inr (), (i, es @ [eff])) \<and>
         (case players i g of
            None \<Rightarrow> r = False \<and> i' = i \<and> es' = es @ [eff]
          | Some p \<Rightarrow>
              r = True \<and> i' = i\<lparr>players := (players i)(g := None)\<rparr> \<and>
              es' = es @ [eff, Send (server p) (Stop (guildID p)) None,
                          Send (server p) (Destroy (guildID p)) None])))"
proof (intro conjI allI impI)
  show "(\<exists>e. fst (leave arg (i, es)) = Inl e) \<longleftrightarrow>
      falsy_string arg \<or> (\<exists>e. fst (sendWS (leave_packet (the arg)) (i, es)) = Inl e)"
  proof (cases "falsy_string arg")
    case True
    then show ?thesis by (simp add: leave_missing)
  next
    case False
    then obtain g where g: "arg = Some g" "g \<noteq> []" by (cases arg) auto
    show ?thesis
      using sendWS_cases [of "leave_packet g" i es] g
      by (auto simp: leave_def Let_def split: option.splits)
  qed
next
  assume "falsy_string arg"
  then show "snd (leave arg (i, es)) = (i, es)" by (simp add: leave_missing)
next
  fix g r i' es'
  assume a: "arg = Some g \<and> leave arg (i, es) = (Inr r, (i', es'))"
  then have g: "g \<noteq> []" by (auto simp: leave_def split: if_splits)
  from a g have "\<not> (\<exists>e. sendWS (leave_packet g) (i, es) = (Inl e, (i, es)))"
    by (auto simp: leave_def)
  with sendWS_cases [of "leave_packet g" i es]
  obtain eff where s: "sendWS (leave_packet g) (i, es) = (Inr (), (i, es @ [eff]))" by blast
  show "\<exists>eff. sendWS (leave_packet g) (i, es) = (Inr (), (i, es @ [eff])) \<and>
         (case players i g of
            None \<Rightarrow> r = False \<and> i' = i \<and> es' = es @ [eff]
          | Some p \<Rightarrow>
              r = True \<and> i' = i\<lparr>players := (players i)(g := None)\<rparr> \<and>
              es' = es @ [eff, Send (server p) (Stop (guildID p)) None,
                          Send (server p) (Destroy (guildID p)) None])"
    using a s g leave_no_player [OF s g] leave_player [OF s g]
    by (cases "players i g") (auto intro!: exI [of _ eff])
  then show "players i' g = None"
    by (cases "players i g") auto
qed



theorem leave_deletes_witness:
  "leave (Some ''1'') (joined_instance, []) =
     (Inr True,
      (joined_instance\<lparr>players := (players joined_instance)(''1'' := None)\<rparr>,
       [ShardSendWS ''1'' (leave_packet ''1''), Send (Server ''localhost'') (Stop ''1'') None,
        Send (Server ''localhost'') (Destroy ''1'') None])) \<and>
   players (joined_instance\<lparr>players := (players joined_instance)(''1'' := None)\<rparr>) ''1'' = None"
proof -
  have l: "leave (Some ''1'') (joined_instance, []) =
     (Inr True,
      (joined_instance\<lparr>players := (players joined_instance)(''1'' := None)\<rparr>,
       [ShardSendWS ''1'' (leave_packet ''1''), Send (Server ''localhost'') (Stop ''1'') None,
        Send (Server ''localhost'') (Destroy ''1'') None]))"
    by (simp add: leave_def sendWS_def leave_packet_def removeAllListeners_def stop_def destroy_def
        send_def assign_def joined_instance_def eris_instance_def eris_client_def Player_def Let_def)
  from leave_deletes [where arg = "Some ''1''" and i = joined_instance and es = "[]"] l
  have "players (joined_instance\<lparr>players := (players joined_instance)(''1'' := None)\<rparr>) ''1'' = None"
    by blast
  with l show ?thesis by blast
qed



section \<open>Players stay under their own guild\<close>

lemma keyed_empty: "players i = Map.empty \<Longrightarrow> keyed i"
  by (simp add: keyed_def)

lemma keyed_returnPlayer:
  "keyed i \<Longrightarrow> returnPlayer host g ch (i, es) = (r, (i', es')) \<Longrightarrow> keyed i'"
  by (auto simp: keyed_def returnPlayer_def Player_def Let_def split: option.splits if_splits)

lemma keyed_join:
  assumes "keyed i" "join arg (i, es) = (r, (i', es'))"
  shows "keyed i'"
proof (cases arg)
  case None
  with assms show ?thesis by (simp add: join_def)
next
  case (Some options)
  show ?thesis
  proof (cases "players i (opt_guildID options) = None \<and> join_switch i options = None")
    case False
    with assms Some show ?thesis by (auto simp: join_def split: option.splits)
  next
    case True
    from sendWS_cases [of "join_packet options" i es] show ?thesis
    proof (elim disjE exE conjE)
      fix e assume "sendWS (join_packet options) (i, es) = (Inl e, (i, es))"
      with assms Some True show ?thesis by (simp add: join_def)
    next
      fix eff assume "sendWS (join_packet options) (i, es) = (Inr (), (i, es @ [eff]))"
      with assms Some True show ?thesis
        by (auto simp: join_def dest: keyed_returnPlayer)
    qed
  qed
qed

lemma keyed_leave:
  assumes "keyed i" "leave arg (i, es) = (r, (i', es'))"
  shows "keyed i'"
proof (cases "falsy_string arg")
  case True
  with assms show ?thesis by (simp add: leave_missing)
next
  case False
  then obtain g where g: "arg = Some g" "g \<noteq> []" by (cases arg) auto
  from sendWS_cases [of "leave_packet g" i es] show ?thesis
  proof (elim disjE exE conjE)
    fix e assume "sendWS (leave_packet g) (i, es) = (Inl e, (i, es))"
    with assms g show ?thesis by (simp add: leave_def)
  next
    fix eff assume "sendWS (leave_packet g) (i, es) = (Inr (), (i, es @ [eff]))"
    with assms g show ?thesis
      by (auto simp: leave_def keyed_def Let_def split: option.splits if_splits)
  qed
qed

lemma keyed_voiceServerUpdate:
  assumes "keyed i" "voiceServerUpdate packet (i, es) = (r, (i', es'))"
  shows "keyed i'"
  using assms
  by (auto simp: voiceServerUpdate_def keyed_def connect_def send_def
      split: option.splits sum.splits if_splits)

section \<open>Voice server updates\<close>

lemma voiceServerUpdate_no_player:
  "players i (guild_id packet) = None \<Longrightarrow> voiceServerUpdate packet (i, es) = (Inr (), (i, es))"
  by (simp add: voiceServerUpdate_def)

text \<open>
  C6, as claimed: with a player for the packet's guild and the guild known to the client,
  the handshake is relayed. Under Eris the session ID is read from the voice state of the
  client user in the guild; when the guild holds none, reading its \<^verbatim>\<open>sessionID\<close> raises
  a \<^verbatim>\<open>TypeError\<close> and nothing is sent.
\<close>

theorem voiceServerUpdate_without_voice_state:
  "players silent_instance (guild_id update_packet) \<noteq> None \<and>
   known_guild silent_instance (guild_id update_packet) \<noteq> None \<and>
   voiceServerUpdate update_packet (silent_instance, []) = (Inl TypeError, (silent_instance, []))"
  by (simp add: voiceServerUpdate_def session_def known_guild_def silent_instance_def joined_instance_def
      eris_instance_def eris_client_def eris_guild_def update_packet_def)

text \<open>
  C6, amended: if a player exists for the packet's guild, the guild is known to the client
  and the session ID can be read from it (\<^verbatim>\<open>guild.me\<close> is set under discord.js, the
  client user has a voice state in the guild under Eris), \<^verbatim>\<open>voiceServerUpdate\<close> sends
  the player's server one \<^verbatim>\<open>voiceUpdate\<close> message with the guild's ID, that session ID
  and the packet as the event, and changes nothing; if no player exists for the guild,
  nothing is sent. Players are stored under their own guild ID, as \<^verbatim>\<open>returnPlayer\<close>
  stores them.
\<close>

theorem voiceServerUpdate_relays:
  "(keyed i \<and> players i (guild_id packet) = Some p \<and> known_guild i (guild_id packet) = Some g \<and>
    session i g = Inr sid \<longrightarrow>
      voiceServerUpdate packet (i, es) =
        (Inr (), (i, es @ [Send (server p) (VoiceUpdate (guild_id packet) sid packet) None]))) \<and>
   (players i (guild_id packet) = None \<longrightarrow> voiceServerUpdate packet (i, es) = (Inr (), (i, es)))"
proof (intro conjI impI)
  assume "players i (guild_id packet) = None"
  then show "voiceServerUpdate packet (i, es) = (Inr (), (i, es))"
    by (rule voiceServerUpdate_no_player)
next
  assume a: "keyed i \<and> players i (guild_id packet) = Some p \<and> known_guild i (guild_id packet) = Some g \<and>
    session i g = Inr sid"
  then have gid: "guildID p = guild_id packet" by (simp add: keyed_def)
  from a have same: "i\<lparr>players := (players i)(guild_id packet \<mapsto> p)\<rparr> = i"
    by (simp add: map_upd_triv)
  from a gid same show "voiceServerUpdate packet (i, es) =
        (Inr (), (i, es @ [Send (server p) (VoiceUpdate (guild_id packet) sid packet) None]))"
    by (auto simp: voiceServerUpdate_def known_guild_def connect_def send_def split: option.splits engine.splits)
qed

theorem voiceServerUpdate_relays_witness:
  "voiceServerUpdate update_packet (joined_instance, []) =
     (Inr (), (joined_instance,
        [Send (Server ''localhost'') (VoiceUpdate ''1'' (Some ''s1'') update_packet) None])) \<and>
   voiceServerUpdate update_packet (eris_instance, []) = (Inr (), (eris_instance, []))"
proof -
  have k: "keyed joined_instance"
    by (simp add: keyed_def joined_instance_def Player_def)
  have p: "players joined_instance (guild_id update_packet) = Some (Player (Server ''localhost'') ''1'' ''2'')"
    by (simp add: joined_instance_def update_packet_def)
  have g: "known_guild joined_instance (guild_id update_packet) = Some eris_guild"
    by (simp add: known_guild_def joined_instance_def eris_instance_def eris_client_def update_packet_def)
  have s: "session joined_instance eris_guild = Inr (Some ''s1'')"
    by (simp add: session_def joined_instance_def eris_instance_def eris_client_def eris_guild_def)
  have n: "players eris_instance (guild_id update_packet) = None"
    by (simp add: eris_instance_def)
  from voiceServerUpdate_relays [where i = joined_instance and packet = update_packet
      and p = "Player (Server ''localhost'') ''1'' ''2''" and g = eris_guild and sid = "Some ''s1''" and es = "[]"]
    k p g s
  have first: "voiceServerUpdate update_packet (joined_instance, []) =
     (Inr (), (joined_instance,
        [Send (Server ''localhost'') (VoiceUpdate ''1'' (Some ''s1'') update_packet) None]))"
    by (simp add: Player_def update_packet_def)
  from voiceServerUpdate_relays [where i = eris_instance and packet = update_packet and es = "[]"] n
  have "voiceServerUpdate update_packet (eris_instance, []) = (Inr (), (eris_instance, []))"
    by blast
  with first show ?thesis by blast
qed

end
